theory Spec2Isabelle
  imports Main "HOL-Library.Word"
begin

section \<open>The DistSQL server of pkg/sql/distsqlrun/server.go\<close>

text \<open>
  The server's entry points are straight-line Go code around calls to collaborators
  (tracer, memory monitors, the flow, the flow registry, the scheduler, the stopper,
  the gRPC streams). The model makes both sides explicit:
  \<^item> what the collaborators answer is a field of the record \<open>ServerImpl\<close> or of the
    stream the entry point reads;
  \<^item> what the entry point asks of them is appended, in program order, to the event
    log of the \<open>world\<close>, which also holds the counter from which the tracer and
    the monitors take fresh handles.
  Go's \<open>(value, error)\<close> results keep their shape: a pointer or interface that may be
  \<open>nil\<close> is an \<open>option\<close>, and \<open>error\<close> is \<open>error option\<close>.
\<close>

subsection \<open>Protocol version\<close>

definition Version :: int where
  "Version = 4"

definition MinAcceptedVersion :: int where
  "MinAcceptedVersion = 4"

subsection \<open>Errors\<close>

text \<open>
  One constructor for each error the file creates with \<open>errors.Errorf\<close>, one for
  \<open>io.EOF\<close>, which \<open>flowStreamInt\<close> compares against, and one for every error that a
  collaborator hands back. \<open>Panic\<close> stands for the run-time panic of dereferencing a
  \<open>nil\<close> flow or context.
\<close>

datatype error =
    VersionMismatch int int int
  | NodeIDNotResolved
  | NoSetupFlowRequest
  | MissingHeaderMessage
  | NoHeaderInFirstMessage
  | EOF
  | Other string
  | Panic

subsection \<open>Data\<close>

type_synonym handle = nat
type_synonym FlowID = string
type_synonym StreamID = int

text \<open>
  A context: the span it carries, if any, and its log tags. A value of this type is a
  context that is not \<open>nil\<close>, as the callers in this file pass (the result of
  \<open>AnnotateCtx\<close>); where \<open>setupFlow\<close> returns a context, which may be \<open>nil\<close>, the type is
  \<open>Context option\<close>.
\<close>

record Context =
  ctx_span :: "handle option"
  ctx_tags :: "string list"

definition Background :: Context where
  "Background = \<lparr>ctx_span = None, ctx_tags = []\<rparr>"

definition SpanFromContext :: "Context \<Rightarrow> handle option" where
  "SpanFromContext ctx = ctx_span ctx"

definition ContextWithSpan :: "Context \<Rightarrow> handle option \<Rightarrow> Context" where
  "ContextWithSpan ctx sp = ctx\<lparr>ctx_span := sp\<rparr>"

datatype Location = Location string

record EvalContextRequest =
  req_Location :: string
  req_Database :: string
  req_SearchPath :: "string list"
  req_StmtTimestampNanos :: int
  req_TxnTimestampNanos :: int
  req_ClusterTimestamp :: int

record FlowSpec =
  FlowID :: FlowID
  Processors :: "string list"

text \<open>
  The version of a request and the node's ID are Go integers; the model takes their
  values, as \<open>int\<close>, which is all that the comparisons with the constants 4 and 0 use.
\<close>

record SetupFlowRequest =
  req_Version :: int
  req_Txn :: string
  req_Flow :: FlowSpec
  req_EvalContext :: EvalContextRequest

text \<open>
  \<open>parser.EvalContext\<close> and \<open>FlowCtx\<close> as \<open>setupFlow\<close> fills them. The fields that only
  pass a handle of the server on (\<open>ReCache\<close>, \<open>stopper\<close>, \<open>rpcCtx\<close>, \<open>clientDB\<close>,
  \<open>remoteTxnDB\<close>, \<open>testingKnobs\<close>, \<open>tempStorage\<close>, \<open>tempStorageIDGenerator\<close>) and the
  closure \<open>Ctx\<close> are left out.
\<close>

record EvalContext =
  ec_Location :: Location
  ec_Database :: string
  ec_SearchPath :: "string list"
  ec_ClusterID :: string
  ec_NodeID :: int
  ec_Mon :: handle
  ec_ActiveMemAcc :: handle
  ec_StmtTimestamp :: int
  ec_TxnTimestamp :: int
  ec_ClusterTimestamp :: int

record FlowCtx =
  fc_id :: FlowID
  fc_evalCtx :: EvalContext
  fc_txnProto :: string
  fc_nodeID :: int

datatype RowReceiver = SyncFlowStreamOutbox | RegisteredReceiver nat

record Flow =
  flow_FlowCtx :: FlowCtx
  flow_syncFlowConsumer :: "RowReceiver option"

definition newFlow :: "FlowCtx \<Rightarrow> RowReceiver option \<Rightarrow> Flow" where
  "newFlow flowCtx syncFlowConsumer =
     \<lparr>flow_FlowCtx = flowCtx, flow_syncFlowConsumer = syncFlowConsumer\<rparr>"

text \<open>The response of the unary RPC; \<open>NewError\<close> wraps an error for the wire.\<close>

datatype Error = NewError error

record SimpleResponse =
  resp_Error :: "Error option"

text \<open>The messages of the two streams, as far as the handlers look into them.\<close>

record ConsumerSignal =
  sig_SetupFlowRequest :: "SetupFlowRequest option"

record ProducerHeader =
  hdr_FlowID :: FlowID
  hdr_StreamID :: StreamID

record ProducerMessage =
  msg_Header :: "ProducerHeader option"
  msg_Data :: "string list"

text \<open>
  A server-side gRPC stream: the messages still to come from the peer, and the error
  \<open>Recv\<close> reports once they are used up (\<open>EOF\<close> when the peer closed the stream
  cleanly).
\<close>

record 'm stream =
  incoming :: "'m list"
  recv_err :: error
  stream_Context :: Context

definition Recv :: "'m stream \<Rightarrow> (error + 'm) \<times> 'm stream" where
  "Recv stream =
     (case incoming stream of
        [] \<Rightarrow> (Inl (recv_err stream), stream)
      | m # ms \<Rightarrow> (Inr m, stream\<lparr>incoming := ms\<rparr>))"

text \<open>The mailbox that \<open>RunSyncFlow\<close> puts between the flow and the stream.\<close>

record outbox =
  mbox_flowCtx :: "FlowCtx option"
  mbox_err :: "error option"

definition newOutboxSyncFlowStream :: outbox where
  "newOutboxSyncFlowStream = \<lparr>mbox_flowCtx = None, mbox_err = None\<rparr>"

definition setFlowCtx :: "FlowCtx \<Rightarrow> outbox \<Rightarrow> outbox" where
  "setFlowCtx flowCtx mbox = mbox\<lparr>mbox_flowCtx := Some flowCtx\<rparr>"

subsection \<open>Events and the world\<close>

datatype event =
    Log_Warning error
  | Log_Errorf error
  | Log_Error error
  | Log_Infof FlowID StreamID
  | Log_VEventf FlowID StreamID
  | StartSpan handle "handle option"
  | FinishSpan handle
  | MonitorStart handle
  | MakeBoundAccount handle handle
  | NewFlow Flow
  | FlowSetup Flow
  | NewOutbox
  | MboxStart
  | FlowStart Flow
  | FlowWait Flow
  | FlowCleanup Context Flow
  | ScheduleFlow Flow
  | ConnectInboundStream FlowID StreamID
  | ProcessInboundStream Flow RowReceiver
  | RegistryCleanup FlowID StreamID

record world =
  events :: "event list"
  next_handle :: handle

definition emit :: "event \<Rightarrow> world \<Rightarrow> world" where
  "emit e w = w\<lparr>events := events w @ [e]\<rparr>"

definition fresh :: "world \<Rightarrow> handle \<times> world" where
  "fresh w = (next_handle w, w\<lparr>next_handle := Suc (next_handle w)\<rparr>)"

text \<open>
  \<open>ds.Tracer.StartSpan\<close>: a new span, following from the parent's when there is one.
\<close>

definition Tracer_StartSpan :: "handle option \<Rightarrow> world \<Rightarrow> handle \<times> world" where
  "Tracer_StartSpan follows_from w =
     (let (sp, w') = fresh w in (sp, emit (StartSpan sp follows_from) w'))"

definition tracing_FinishSpan :: "handle \<Rightarrow> world \<Rightarrow> world" where
  "tracing_FinishSpan sp w = emit (FinishSpan sp) w"

text \<open>\<open>mon.MakeMonitor\<close> followed by \<open>monitor.Start\<close> under the server's monitor.\<close>

definition Monitor_Start :: "world \<Rightarrow> handle \<times> world" where
  "Monitor_Start w = (let (m, w') = fresh w in (m, emit (MonitorStart m) w'))"

definition Monitor_MakeBoundAccount :: "handle \<Rightarrow> world \<Rightarrow> handle \<times> world" where
  "Monitor_MakeBoundAccount m w =
     (let (acc, w') = fresh w in (acc, emit (MakeBoundAccount acc m) w'))"

subsection \<open>The server and its collaborators\<close>

text \<open>
  \<open>NodeID_Get\<close> is what \<open>ds.ServerConfig.NodeID.Get()\<close> reads and \<open>ClusterID\<close> the
  field of that name. The other fields are the answers of code outside this file, each
  as a function of the arguments the file passes: \<open>sqlbase.TimeZoneStringToLocation\<close>,
  the ambient context's \<open>AnnotateCtx\<close>, \<open>f.setup(ctx, &req.Flow)\<close>,
  \<open>flowScheduler.ScheduleFlow(ctx, f)\<close>, \<open>Stopper.RunTask\<close> (an error when the stopper
  refuses the task, which then does not run; \<open>nil\<close> after it has run the task), what
  running the flow \<open>f\<close> makes of the mailbox, \<open>flowRegistry.ConnectInboundStream\<close>,
  \<open>ProcessInboundStream\<close> (given the rest of the stream, the first message and the
  receiver) and \<open>log.V(1)\<close>.
\<close>

record ServerImpl =
  NodeID_Get :: int
  ClusterID :: string
  TimeZoneStringToLocation :: "string \<Rightarrow> error + Location"
  AnnotateCtx :: "Context \<Rightarrow> Context"
  Flow_setup :: "Context \<Rightarrow> Flow \<Rightarrow> FlowSpec \<Rightarrow> error option"
  ScheduleFlow_err :: "Context \<Rightarrow> Flow \<Rightarrow> error option"
  RunTask_err :: "error option"
  mbox_run :: "Flow \<Rightarrow> outbox \<Rightarrow> outbox"
  ConnectInboundStream_res :: "FlowID \<Rightarrow> StreamID \<Rightarrow> error + Flow \<times> RowReceiver"
  ProcessInboundStream_err ::
    "ProducerMessage stream \<Rightarrow> ProducerMessage \<Rightarrow> RowReceiver \<Rightarrow> error option"
  log_V1 :: bool

subsection \<open>TempStorageIDGenerator\<close>

record TempStorageIDGenerator =
  nextID :: "64 word"

text \<open>\<open>atomic.AddUint64(&t.nextID, 1)\<close> adds modulo \<open>2^64\<close> and returns the new value.\<close>

definition NewID :: "TempStorageIDGenerator \<Rightarrow> 64 word \<times> TempStorageIDGenerator" where
  "NewID t = (nextID t + 1, t\<lparr>nextID := nextID t + 1\<rparr>)"

text \<open>
  \<open>n\<close> calls, in the order in which the atomic additions take effect (each addition is
  indivisible, so the calls of any number of callers take effect in some order).
\<close>

fun NewIDs :: "nat \<Rightarrow> TempStorageIDGenerator \<Rightarrow> 64 word list \<times> TempStorageIDGenerator" where
  "NewIDs 0 t = ([], t)"
| "NewIDs (Suc n) t =
     (let (x, t') = NewID t; (xs, t'') = NewIDs n t' in (x # xs, t''))"

subsection \<open>setupFlow\<close>

definition setupFlow ::
  "ServerImpl \<Rightarrow> world \<Rightarrow> Context \<Rightarrow> handle option \<Rightarrow> SetupFlowRequest \<Rightarrow> RowReceiver option
   \<Rightarrow> world \<times> Context option \<times> Flow option \<times> error option" where
  "setupFlow ds w ctx parentSpan req syncFlowConsumer =
     (if req_Version req < MinAcceptedVersion \<or> req_Version req > Version then
        let err = VersionMismatch (req_Version req) MinAcceptedVersion Version
        in (emit (Log_Warning err) w, Some ctx, None, Some err)
      else
        let nodeID = NodeID_Get ds in
        if nodeID = 0 then (w, None, None, Some NodeIDNotResolved)
        else
          let (sp, w1) = (case parentSpan of
                            None \<Rightarrow> Tracer_StartSpan None w
                          | Some p \<Rightarrow> Tracer_StartSpan (Some p) w);
              ctx1 = ContextWithSpan ctx (Some sp);
              (monitor, w2) = Monitor_Start w1;
              (acc, w3) = Monitor_MakeBoundAccount monitor w2
          in (case TimeZoneStringToLocation ds (req_Location (req_EvalContext req)) of
               Inl err \<Rightarrow> (tracing_FinishSpan sp w3, Some ctx1, None, Some err)
             | Inr location \<Rightarrow>
                 let evalCtx = \<lparr>ec_Location = location,
                                ec_Database = req_Database (req_EvalContext req),
                                ec_SearchPath = req_SearchPath (req_EvalContext req),
                                ec_ClusterID = ClusterID ds,
                                ec_NodeID = nodeID,
                                ec_Mon = monitor,
                                ec_ActiveMemAcc = acc,
                                ec_StmtTimestamp = req_StmtTimestampNanos (req_EvalContext req),
                                ec_TxnTimestamp = req_TxnTimestampNanos (req_EvalContext req),
                                ec_ClusterTimestamp = req_ClusterTimestamp (req_EvalContext req)\<rparr>;
                     flowCtx = \<lparr>fc_id = FlowID (req_Flow req),
                                fc_evalCtx = evalCtx,
                                fc_txnProto = req_Txn req,
                                fc_nodeID = nodeID\<rparr>;
                     ctx2 = AnnotateCtx ds ctx1;
                     f = newFlow flowCtx syncFlowConsumer;
                     w4 = emit (NewFlow f) w3;
                     w5 = emit (FlowSetup f) w4
                 in (case Flow_setup ds ctx2 f (req_Flow req) of
                      Some err \<Rightarrow>
                        let w6 = emit (Log_Errorf err) w5;
                            w7 = tracing_FinishSpan sp w6;
                            ctx3 = ContextWithSpan ctx2 None
                        in (w7, Some ctx3, None, Some err)
                    | None \<Rightarrow> (w5, Some ctx2, Some f, None))))"

subsection \<open>SetupSyncFlow and RunSyncFlow\<close>

definition SetupSyncFlow ::
  "ServerImpl \<Rightarrow> world \<Rightarrow> Context \<Rightarrow> SetupFlowRequest \<Rightarrow> RowReceiver
   \<Rightarrow> world \<times> Context option \<times> Flow option \<times> error option" where
  "SetupSyncFlow ds w ctx req output =
     setupFlow ds w (AnnotateCtx ds ctx) (SpanFromContext ctx) req (Some output)"

text \<open>
  The task handed to \<open>Stopper.RunTask\<close>: start the mailbox and the flow, wait, clean
  up. It runs before \<open>RunTask\<close> returns; what the mailbox holds afterwards is
  \<open>mbox_run\<close> of the flow and of what it held before.
\<close>

definition run_sync_task :: "ServerImpl \<Rightarrow> Context \<Rightarrow> Flow \<Rightarrow> outbox \<Rightarrow> world \<Rightarrow> outbox \<times> world" where
  "run_sync_task ds ctx f mbox w =
     (let w1 = emit MboxStart w;
          w2 = emit (FlowStart f) w1;
          w3 = emit (FlowWait f) w2;
          w4 = emit (FlowCleanup ctx f) w3
      in (mbox_run ds f mbox, w4))"

text \<open>
  After a \<open>nil\<close> error \<open>RunSyncFlow\<close> dereferences the flow it was given. The last
  branch is the panic of a \<open>nil\<close> flow there; \<open>setupFlow\<close> never returns one together
  with a \<open>nil\<close> error (lemma \<open>setupFlow_no_error\<close> below), so the branch is not taken.
  The same holds for \<open>SetupFlow\<close>, which hands the flow to the scheduler.
\<close>

definition RunSyncFlow :: "ServerImpl \<Rightarrow> world \<Rightarrow> ConsumerSignal stream \<Rightarrow> world \<times> error option" where
  "RunSyncFlow ds w stream =
     (let mbox = newOutboxSyncFlowStream;
          w0 = emit NewOutbox w
      in (case fst (Recv stream) of
            Inl err \<Rightarrow> (w0, Some err)
          | Inr firstMsg \<Rightarrow>
              (case sig_SetupFlowRequest firstMsg of
                 None \<Rightarrow> (w0, Some NoSetupFlowRequest)
               | Some req \<Rightarrow>
                   (case SetupSyncFlow ds w0 (stream_Context stream) req SyncFlowStreamOutbox of
                      (w1, _, _, Some err) \<Rightarrow> (w1, Some err)
                    | (w1, Some ctx, Some f, None) \<Rightarrow>
                        (let mbox1 = setFlowCtx (flow_FlowCtx f) mbox
                         in (case RunTask_err ds of
                               Some err \<Rightarrow> (w1, Some err)
                             | None \<Rightarrow>
                                 (let (mbox2, w2) = run_sync_task ds ctx f mbox1 w1
                                  in (w2, mbox_err mbox2))))
                    | (w1, _, _, None) \<Rightarrow> (w1, Some Panic)))))"

subsection \<open>SetupFlow\<close>

definition SetupFlow ::
  "ServerImpl \<Rightarrow> world \<Rightarrow> Context \<Rightarrow> SetupFlowRequest
   \<Rightarrow> world \<times> SimpleResponse option \<times> error option" where
  "SetupFlow ds w ctx req =
     (let parentSpan = SpanFromContext ctx;
          ctx1 = AnnotateCtx ds Background;
          (w1, ctx2, f, err) = setupFlow ds w ctx1 parentSpan req None;
          (w2, err1) = (case err of
                          Some e \<Rightarrow> (w1, Some e)
                        | None \<Rightarrow>
                            (case f of
                               Some fl \<Rightarrow>
                                 (case ctx2 of
                                    Some c \<Rightarrow>
                                      (emit (ScheduleFlow fl) w1, ScheduleFlow_err ds c fl)
                                  | None \<Rightarrow> (w1, Some Panic))
                             | None \<Rightarrow> (w1, Some Panic)))
      in (case err1 of
            Some e \<Rightarrow> (w2, Some \<lparr>resp_Error = Some (NewError e)\<rparr>, None)
          | None \<Rightarrow> (w2, Some \<lparr>resp_Error = None\<rparr>, None)))"

subsection \<open>flowStreamInt and FlowStream\<close>

definition flowStreamInt ::
  "ServerImpl \<Rightarrow> world \<Rightarrow> Context \<Rightarrow> ProducerMessage stream \<Rightarrow> world \<times> error option" where
  "flowStreamInt ds w ctx stream =
     (case fst (Recv stream) of
        Inl err \<Rightarrow>
          (if err = EOF then (w, Some MissingHeaderMessage) else (w, Some err))
      | Inr msg \<Rightarrow>
          (case msg_Header msg of
             None \<Rightarrow> (w, Some NoHeaderInFirstMessage)
           | Some h \<Rightarrow>
               (let flowID = hdr_FlowID h;
                    streamID = hdr_StreamID h;
                    w1 = (if log_V1 ds then emit (Log_Infof flowID streamID) w else w);
                    w2 = emit (ConnectInboundStream flowID streamID) w1
                in (case ConnectInboundStream_res ds flowID streamID of
                      Inl err \<Rightarrow> (w2, Some err)
                    | Inr (f, receiver) \<Rightarrow>
                        (let w3 = emit (Log_VEventf flowID streamID) w2;
                             w4 = emit (ProcessInboundStream f receiver) w3;
                             w5 = emit (RegistryCleanup flowID streamID) w4
                         in (w5, ProcessInboundStream_err ds (snd (Recv stream)) msg
                                   receiver))))))"

definition FlowStream :: "ServerImpl \<Rightarrow> world \<Rightarrow> ProducerMessage stream \<Rightarrow> world \<times> error option" where
  "FlowStream ds w stream =
     (let ctx = AnnotateCtx ds (stream_Context stream);
          (w1, err) = flowStreamInt ds w ctx stream
      in (case err of
            Some e \<Rightarrow> (emit (Log_Error e) w1, err)
          | None \<Rightarrow> (w1, err)))"

subsection \<open>Reading results and event logs\<close>

definition ret_world :: "world \<times> 'c \<times> 'f \<times> 'e \<Rightarrow> world" where
  "ret_world r = fst r"

definition ret_ctx :: "world \<times> 'c \<times> 'f \<times> 'e \<Rightarrow> 'c" where
  "ret_ctx r = fst (snd r)"

definition ret_flow :: "world \<times> 'c \<times> 'f \<times> 'e \<Rightarrow> 'f" where
  "ret_flow r = fst (snd (snd r))"

definition ret_err :: "world \<times> 'c \<times> 'f \<times> 'e \<Rightarrow> 'e" where
  "ret_err r = snd (snd (snd r))"

text \<open>The events that a call appended to the log of \<open>w\<close>, leaving \<open>w'\<close>.\<close>

definition new_events :: "world \<Rightarrow> world \<Rightarrow> event list" where
  "new_events w w' = drop (length (events w)) (events w')"

text \<open>The handles an event opens: a span, a monitor, a bound account.\<close>

definition opened_by :: "event \<Rightarrow> handle list" where
  "opened_by e =
     (case e of
        StartSpan sp _ \<Rightarrow> [sp]
      | MonitorStart m \<Rightarrow> [m]
      | MakeBoundAccount acc _ \<Rightarrow> [acc]
      | _ \<Rightarrow> [])"

text \<open>
  Modelled from the spec: \<open>Flow.Cleanup\<close>, which is not part of this file. The monitor
  and the account of a flow are released during its cleanup, which also finishes the span
  of the context (the comments of \<open>setupFlow\<close> say the same).
\<close>

definition Flow_Cleanup_releases :: "Context \<Rightarrow> Flow \<Rightarrow> handle list" where
  "Flow_Cleanup_releases ctx f =
     (case ctx_span ctx of None \<Rightarrow> [] | Some sp \<Rightarrow> [sp]) @
     [ec_ActiveMemAcc (fc_evalCtx (flow_FlowCtx f)), ec_Mon (fc_evalCtx (flow_FlowCtx f))]"

text \<open>The handles an event releases.\<close>

definition released_by :: "event \<Rightarrow> handle list" where
  "released_by e =
     (case e of
        FinishSpan sp \<Rightarrow> [sp]
      | FlowCleanup ctx f \<Rightarrow> Flow_Cleanup_releases ctx f
      | _ \<Rightarrow> [])"

definition opened :: "world \<Rightarrow> world \<Rightarrow> handle list" where
  "opened w w' = concat (map opened_by (new_events w w'))"

definition released :: "world \<Rightarrow> world \<Rightarrow> handle list" where
  "released w w' = concat (map released_by (new_events w w'))"

text \<open>The events in which a flow is constructed, wired, scheduled, run or torn down.\<close>

definition flow_event :: "event \<Rightarrow> bool" where
  "flow_event e =
     (case e of
        NewFlow _ \<Rightarrow> True
      | FlowSetup _ \<Rightarrow> True
      | MboxStart \<Rightarrow> True
      | FlowStart _ \<Rightarrow> True
      | FlowWait _ \<Rightarrow> True
      | FlowCleanup _ _ \<Rightarrow> True
      | ScheduleFlow _ \<Rightarrow> True
      | _ \<Rightarrow> False)"

definition connect_attempts :: "event list \<Rightarrow> (FlowID \<times> StreamID) list" where
  "connect_attempts evs =
     concat (map (\<lambda>e. case e of ConnectInboundStream fid sid \<Rightarrow> [(fid, sid)] | _ \<Rightarrow> []) evs)"

subsection \<open>The flow under construction\<close>

text \<open>The context that \<open>setupFlow\<close> has built when it calls \<open>f.setup\<close>.\<close>

definition built_ctx :: "ServerImpl \<Rightarrow> world \<Rightarrow> Context \<Rightarrow> Context" where
  "built_ctx ds w ctx = AnnotateCtx ds (ContextWithSpan ctx (Some (next_handle w)))"

text \<open>The flow that \<open>setupFlow\<close> builds once the time zone is resolved.\<close>

definition built_flow ::
  "ServerImpl \<Rightarrow> world \<Rightarrow> SetupFlowRequest \<Rightarrow> RowReceiver option \<Rightarrow> Location \<Rightarrow> Flow" where
  "built_flow ds w req sink location =
     newFlow
       \<lparr>fc_id = FlowID (req_Flow req),
        fc_evalCtx =
          \<lparr>ec_Location = location,
           ec_Database = req_Database (req_EvalContext req),
           ec_SearchPath = req_SearchPath (req_EvalContext req),
           ec_ClusterID = ClusterID ds,
           ec_NodeID = NodeID_Get ds,
           ec_Mon = Suc (next_handle w),
           ec_ActiveMemAcc = Suc (Suc (next_handle w)),
           ec_StmtTimestamp = req_StmtTimestampNanos (req_EvalContext req),
           ec_TxnTimestamp = req_TxnTimestampNanos (req_EvalContext req),
           ec_ClusterTimestamp = req_ClusterTimestamp (req_EvalContext req)\<rparr>,
        fc_txnProto = req_Txn req,
        fc_nodeID = NodeID_Get ds\<rparr>
       sink"

subsection \<open>Example inputs\<close>

definition example_world :: world where
  "example_world = \<lparr>events = [], next_handle = 0\<rparr>"

definition example_ctx :: Context where
  "example_ctx = \<lparr>ctx_span = None, ctx_tags = [''rpc'']\<rparr>"

definition example_flow :: Flow where
  "example_flow =
     \<lparr>flow_FlowCtx =
        \<lparr>fc_id = ''f1'',
         fc_evalCtx = \<lparr>ec_Location = Location ''UTC'', ec_Database = ''db'',
                       ec_SearchPath = [], ec_ClusterID = ''c1'', ec_NodeID = 1,
                       ec_Mon = 1, ec_ActiveMemAcc = 2, ec_StmtTimestamp = 0,
                       ec_TxnTimestamp = 0, ec_ClusterTimestamp = 0\<rparr>,
         fc_txnProto = ''txn'', fc_nodeID = 1\<rparr>,
      flow_syncFlowConsumer = None\<rparr>"

definition example_ds :: ServerImpl where
  "example_ds =
     \<lparr>NodeID_Get = 1,
      ClusterID = ''c1'',
      TimeZoneStringToLocation =
        (\<lambda>s. if s = ''UTC'' then Inr (Location ''UTC'') else Inl (Other ''unknown time zone'')),
      AnnotateCtx = (\<lambda>c. c\<lparr>ctx_tags := ctx_tags c @ [''n1'']\<rparr>),
      Flow_setup = (\<lambda>c f spec. None),
      ScheduleFlow_err = (\<lambda>c f. None),
      RunTask_err = None,
      mbox_run = (\<lambda>f m. m),
      ConnectInboundStream_res =
        (\<lambda>fid sid. if fid = ''f1'' \<and> sid = 7 then Inr (example_flow, RegisteredReceiver 0)
                    else Inl (Other ''flow not found'')),
      ProcessInboundStream_err = (\<lambda>s m r. None),
      log_V1 = False\<rparr>"

definition example_req :: "int \<Rightarrow> string \<Rightarrow> SetupFlowRequest" where
  "example_req v tz =
     \<lparr>req_Version = v, req_Txn = ''txn'',
      req_Flow = \<lparr>FlowID = ''f1'', Processors = [''noop'']\<rparr>,
      req_EvalContext = \<lparr>req_Location = tz, req_Database = ''db'', req_SearchPath = [],
                         req_StmtTimestampNanos = 0, req_TxnTimestampNanos = 0,
                         req_ClusterTimestamp = 0\<rparr>\<rparr>"

definition example_stream :: "'m list \<Rightarrow> 'm stream" where
  "example_stream ms = \<lparr>incoming = ms, recv_err = EOF, stream_Context = example_ctx\<rparr>"


section \<open>Properties\<close>

subsection \<open>The paths through setupFlow\<close>

lemmas example_defs =
  example_world_def example_ctx_def example_flow_def example_ds_def example_req_def
  example_stream_def

lemmas effect_defs =
  Tracer_StartSpan_def Monitor_Start_def Monitor_MakeBoundAccount_def fresh_def emit_def
  tracing_FinishSpan_def

lemmas ret_defs = ret_world_def ret_ctx_def ret_flow_def ret_err_def

lemmas log_defs = new_events_def opened_def released_def opened_by_def released_by_def

lemma StartSpan_parent [simp]:
  "(case parentSpan of None \<Rightarrow> Tracer_StartSpan None w | Some p \<Rightarrow> Tracer_StartSpan (Some p) w)
   = Tracer_StartSpan parentSpan w"
  by (cases parentSpan) simp_all

lemma setupFlow_version:
  assumes "req_Version req < MinAcceptedVersion \<or> req_Version req > Version"
  shows "setupFlow ds w ctx parentSpan req sink =
           (emit (Log_Warning (VersionMismatch (req_Version req) MinAcceptedVersion Version)) w,
            Some ctx, None,
            Some (VersionMismatch (req_Version req) MinAcceptedVersion Version))"
  using assms by (simp add: setupFlow_def Let_def)

lemma setupFlow_nodeID:
  assumes "MinAcceptedVersion \<le> req_Version req" "req_Version req \<le> Version"
    and "NodeID_Get ds = 0"
  shows "setupFlow ds w ctx parentSpan req sink = (w, None, None, Some NodeIDNotResolved)"
  using assms by (simp add: setupFlow_def Let_def)

lemma setupFlow_tz:
  assumes "MinAcceptedVersion \<le> req_Version req" "req_Version req \<le> Version"
    and "NodeID_Get ds \<noteq> 0"
    and "TimeZoneStringToLocation ds (req_Location (req_EvalContext req)) = Inl e"
  shows "setupFlow ds w ctx parentSpan req sink =
           (w\<lparr>events := events w @
                 [StartSpan (next_handle w) parentSpan,
                  MonitorStart (Suc (next_handle w)),
                  MakeBoundAccount (Suc (Suc (next_handle w))) (Suc (next_handle w)),
                  FinishSpan (next_handle w)],
               next_handle := Suc (Suc (Suc (next_handle w)))\<rparr>,
            Some (ContextWithSpan ctx (Some (next_handle w))), None, Some e)"
  using assms by (simp add: setupFlow_def Let_def effect_defs)

lemma setupFlow_wiring:
  assumes "MinAcceptedVersion \<le> req_Version req" "req_Version req \<le> Version"
    and "NodeID_Get ds \<noteq> 0"
    and "TimeZoneStringToLocation ds (req_Location (req_EvalContext req)) = Inr location"
    and "Flow_setup ds (built_ctx ds w ctx) (built_flow ds w req sink location) (req_Flow req)
           = Some e"
  shows "setupFlow ds w ctx parentSpan req sink =
           (w\<lparr>events := events w @
                 [StartSpan (next_handle w) parentSpan,
                  MonitorStart (Suc (next_handle w)),
                  MakeBoundAccount (Suc (Suc (next_handle w))) (Suc (next_handle w)),
                  NewFlow (built_flow ds w req sink location),
                  FlowSetup (built_flow ds w req sink location),
                  Log_Errorf e,
                  FinishSpan (next_handle w)],
               next_handle := Suc (Suc (Suc (next_handle w)))\<rparr>,
            Some (ContextWithSpan (built_ctx ds w ctx) None), None, Some e)"
  using assms by (simp add: setupFlow_def Let_def effect_defs built_flow_def built_ctx_def)

lemma setupFlow_ok:
  assumes "MinAcceptedVersion \<le> req_Version req" "req_Version req \<le> Version"
    and "NodeID_Get ds \<noteq> 0"
    and "TimeZoneStringToLocation ds (req_Location (req_EvalContext req)) = Inr location"
    and "Flow_setup ds (built_ctx ds w ctx) (built_flow ds w req sink location) (req_Flow req)
           = None"
  shows "setupFlow ds w ctx parentSpan req sink =
           (w\<lparr>events := events w @
                 [StartSpan (next_handle w) parentSpan,
                  MonitorStart (Suc (next_handle w)),
                  MakeBoundAccount (Suc (Suc (next_handle w))) (Suc (next_handle w)),
                  NewFlow (built_flow ds w req sink location),
                  FlowSetup (built_flow ds w req sink location)],
               next_handle := Suc (Suc (Suc (next_handle w)))\<rparr>,
            Some (built_ctx ds w ctx), Some (built_flow ds w req sink location), None)"
  using assms by (simp add: setupFlow_def Let_def effect_defs built_flow_def built_ctx_def)

text \<open>The five ways through \<open>setupFlow\<close>.\<close>

lemma setupFlow_cases:
  obtains
    (version) "req_Version req < MinAcceptedVersion \<or> req_Version req > Version"
  | (nodeID) "MinAcceptedVersion \<le> req_Version req" "req_Version req \<le> Version"
      "NodeID_Get ds = 0"
  | (tz) e where "MinAcceptedVersion \<le> req_Version req" "req_Version req \<le> Version"
      "NodeID_Get ds \<noteq> 0"
      "TimeZoneStringToLocation ds (req_Location (req_EvalContext req)) = Inl e"
  | (wiring) location e where "MinAcceptedVersion \<le> req_Version req"
      "req_Version req \<le> Version" "NodeID_Get ds \<noteq> 0"
      "TimeZoneStringToLocation ds (req_Location (req_EvalContext req)) = Inr location"
      "Flow_setup ds (built_ctx ds w ctx) (built_flow ds w req sink location) (req_Flow req)
         = Some e"
  | (ok) location where "MinAcceptedVersion \<le> req_Version req"
      "req_Version req \<le> Version" "NodeID_Get ds \<noteq> 0"
      "TimeZoneStringToLocation ds (req_Location (req_EvalContext req)) = Inr location"
      "Flow_setup ds (built_ctx ds w ctx) (built_flow ds w req sink location) (req_Flow req)
         = None"
proof (cases "req_Version req < MinAcceptedVersion \<or> req_Version req > Version")
  case True
  then show ?thesis by (rule version)
next
  case range: False
  show ?thesis
  proof (cases "NodeID_Get ds = 0")
    case True
    with range show ?thesis by (intro nodeID) auto
  next
    case resolved: False
    show ?thesis
    proof (cases "TimeZoneStringToLocation ds (req_Location (req_EvalContext req))")
      case (Inl e)
      with range resolved show ?thesis by (intro tz) auto
    next
      case (Inr location)
      show ?thesis
      proof (cases "Flow_setup ds (built_ctx ds w ctx) (built_flow ds w req sink location)
                      (req_Flow req)")
        case None
        with range resolved Inr show ?thesis by (intro ok) auto
      next
        case (Some e)
        with range resolved Inr show ?thesis by (intro wiring) auto
      qed
    qed
  qed
qed

lemma setupFlow_no_error:
  assumes "ret_err (setupFlow ds w ctx parentSpan req sink) = None"
  shows "\<exists>c f. ret_ctx (setupFlow ds w ctx parentSpan req sink) = Some c \<and>
               ret_flow (setupFlow ds w ctx parentSpan req sink) = Some f"
proof (cases rule: setupFlow_cases [where req = req and ds = ds and w = w and ctx = ctx and sink = sink])
  case version
  with assms show ?thesis by (simp add: setupFlow_version ret_defs)
next
  case nodeID
  with assms show ?thesis by (simp add: setupFlow_nodeID ret_defs)
next
  case (tz e)
  with assms show ?thesis by (simp add: setupFlow_tz ret_defs)
next
  case (wiring location e)
  with assms show ?thesis by (simp add: setupFlow_wiring ret_defs)
next
  case (ok location)
  then show ?thesis by (simp add: setupFlow_ok ret_defs)
qed

subsection \<open>Claims about setupFlow\<close>

text \<open>
  C2. A request whose version is below \<open>MinAcceptedVersion\<close> or above \<open>Version\<close> fails
  with the version-mismatch error; the call only logs a warning: it starts no span and
  opens no monitor and no account, and takes no handle.
\<close>

theorem setupFlow_rejects_version:
  assumes "req_Version req < MinAcceptedVersion \<or> req_Version req > Version"
  shows "ret_err (setupFlow ds w ctx parentSpan req sink) =
           Some (VersionMismatch (req_Version req) MinAcceptedVersion Version)
         \<and> ret_flow (setupFlow ds w ctx parentSpan req sink) = None
         \<and> new_events w (ret_world (setupFlow ds w ctx parentSpan req sink)) =
             [Log_Warning (VersionMismatch (req_Version req) MinAcceptedVersion Version)]
         \<and> opened w (ret_world (setupFlow ds w ctx parentSpan req sink)) = []
         \<and> next_handle (ret_world (setupFlow ds w ctx parentSpan req sink)) = next_handle w"
  by (simp add: setupFlow_version [OF assms] ret_defs log_defs emit_def)

theorem setupFlow_rejects_version_witness:
  "(req_Version (example_req 3 ''UTC'') < MinAcceptedVersion
      \<or> req_Version (example_req 3 ''UTC'') > Version)
   \<and> ret_err (setupFlow example_ds example_world example_ctx None (example_req 3 ''UTC'') None) =
       Some (VersionMismatch 3 4 4)
   \<and> opened example_world
       (ret_world (setupFlow example_ds example_world example_ctx None (example_req 3 ''UTC'') None))
       = []"
proof -
  have h: "req_Version (example_req 3 ''UTC'') < MinAcceptedVersion
             \<or> req_Version (example_req 3 ''UTC'') > Version"
    by (simp add: example_req_def MinAcceptedVersion_def)
  from setupFlow_rejects_version [OF h, of example_ds example_world example_ctx None None] h
  show ?thesis by (simp add: example_req_def MinAcceptedVersion_def Version_def)
qed

text \<open>
  C4. While the node's identity is unresolved (\<open>NodeID.Get()\<close> is 0), \<open>setupFlow\<close> fails
  for every request, context, parent span and sink: with the version-mismatch error when
  the version is out of range, with the identity error otherwise. No flow is returned.
\<close>

theorem setupFlow_before_identity:
  assumes "NodeID_Get ds = 0"
  shows "ret_err (setupFlow ds w ctx parentSpan req sink) =
           Some (if req_Version req < MinAcceptedVersion \<or> req_Version req > Version
                 then VersionMismatch (req_Version req) MinAcceptedVersion Version
                 else NodeIDNotResolved)
         \<and> ret_flow (setupFlow ds w ctx parentSpan req sink) = None"
  using assms by (simp add: setupFlow_def Let_def ret_defs)

theorem setupFlow_before_identity_witness:
  "NodeID_Get (example_ds\<lparr>NodeID_Get := 0\<rparr>) = 0
   \<and> ret_err (setupFlow (example_ds\<lparr>NodeID_Get := 0\<rparr>) example_world example_ctx None
               (example_req 4 ''UTC'') None) = Some NodeIDNotResolved
   \<and> ret_flow (setupFlow (example_ds\<lparr>NodeID_Get := 0\<rparr>) example_world example_ctx None
               (example_req 4 ''UTC'') None) = None"
proof -
  have h: "NodeID_Get (example_ds\<lparr>NodeID_Get := 0\<rparr>) = 0"
    by simp
  from setupFlow_before_identity [OF h, of example_world example_ctx None "example_req 4 ''UTC''" None] h
  show ?thesis by (simp add: example_req_def MinAcceptedVersion_def Version_def)
qed

text \<open>
  C8. When the wiring of the flow (\<open>f.setup\<close>) fails, \<open>setupFlow\<close> returns that error and
  no flow; the events of the call end with the error log and the finish of the span that
  the call started, which is the only release; and the returned context carries no
  span.
\<close>

theorem setupFlow_wiring_error:
  assumes "MinAcceptedVersion \<le> req_Version req" and "req_Version req \<le> Version"
    and "NodeID_Get ds \<noteq> 0"
    and "TimeZoneStringToLocation ds (req_Location (req_EvalContext req)) = Inr location"
    and "Flow_setup ds (built_ctx ds w ctx) (built_flow ds w req sink location) (req_Flow req)
           = Some e"
  shows "ret_err (setupFlow ds w ctx parentSpan req sink) = Some e
         \<and> ret_flow (setupFlow ds w ctx parentSpan req sink) = None
         \<and> new_events w (ret_world (setupFlow ds w ctx parentSpan req sink)) =
             [StartSpan (next_handle w) parentSpan,
              MonitorStart (Suc (next_handle w)),
              MakeBoundAccount (Suc (Suc (next_handle w))) (Suc (next_handle w)),
              NewFlow (built_flow ds w req sink location),
              FlowSetup (built_flow ds w req sink location),
              Log_Errorf e,
              FinishSpan (next_handle w)]
         \<and> released w (ret_world (setupFlow ds w ctx parentSpan req sink)) = [next_handle w]
         \<and> map_option SpanFromContext (ret_ctx (setupFlow ds w ctx parentSpan req sink)) =
             Some None"
  by (simp add: setupFlow_wiring [OF assms] ret_defs log_defs ContextWithSpan_def
      SpanFromContext_def)

theorem setupFlow_wiring_error_witness:
  "ret_err (setupFlow (example_ds\<lparr>Flow_setup := \<lambda>c f spec. Some (Other ''bad processor'')\<rparr>)
             example_world example_ctx None (example_req 4 ''UTC'') None)
     = Some (Other ''bad processor'')
   \<and> released example_world
       (ret_world (setupFlow (example_ds\<lparr>Flow_setup := \<lambda>c f spec. Some (Other ''bad processor'')\<rparr>)
                    example_world example_ctx None (example_req 4 ''UTC'') None)) = [0]
   \<and> map_option SpanFromContext
       (ret_ctx (setupFlow (example_ds\<lparr>Flow_setup := \<lambda>c f spec. Some (Other ''bad processor'')\<rparr>)
                    example_world example_ctx None (example_req 4 ''UTC'') None)) = Some None"
proof -
  let ?ds = "example_ds\<lparr>Flow_setup := \<lambda>c f spec. Some (Other ''bad processor'')\<rparr>"
  let ?req = "example_req 4 ''UTC''"
  have h1: "MinAcceptedVersion \<le> req_Version ?req"
    and h2: "req_Version ?req \<le> Version"
    by (simp_all add: example_req_def MinAcceptedVersion_def Version_def)
  have h3: "NodeID_Get ?ds \<noteq> 0"
    by (simp add: example_ds_def)
  have h4: "TimeZoneStringToLocation ?ds (req_Location (req_EvalContext ?req))
              = Inr (Location ''UTC'')"
    by (simp add: example_ds_def example_req_def)
  have h5: "Flow_setup ?ds (built_ctx ?ds example_world example_ctx)
              (built_flow ?ds example_world ?req None (Location ''UTC'')) (req_Flow ?req)
              = Some (Other ''bad processor'')"
    by simp
  from setupFlow_wiring_error [OF h1 h2 h3 h4 h5, of None]
  show ?thesis by (simp add: example_world_def)
qed

text \<open>
  C10. \<open>setupFlow\<close> returns a \<open>nil\<close> context exactly when the version is in range and the
  identity is unresolved, where it fails with the identity error; on every other path,
  failing or not, the returned context is not \<open>nil\<close>. The version is checked first: a
  request out of range on a node without identity fails with the version-mismatch error
  and gets the caller's context back.
\<close>

theorem setupFlow_returned_context:
  "(ret_ctx (setupFlow ds w ctx parentSpan req sink) = None) =
     (MinAcceptedVersion \<le> req_Version req \<and> req_Version req \<le> Version \<and> NodeID_Get ds = 0)
   \<and> (MinAcceptedVersion \<le> req_Version req \<and> req_Version req \<le> Version \<and> NodeID_Get ds = 0
        \<longrightarrow> ret_err (setupFlow ds w ctx parentSpan req sink) = Some NodeIDNotResolved)
   \<and> ((req_Version req < MinAcceptedVersion \<or> req_Version req > Version) \<and> NodeID_Get ds = 0
        \<longrightarrow> ret_err (setupFlow ds w ctx parentSpan req sink) =
              Some (VersionMismatch (req_Version req) MinAcceptedVersion Version)
            \<and> ret_ctx (setupFlow ds w ctx parentSpan req sink) = Some ctx)"
proof (cases rule: setupFlow_cases [where req = req and ds = ds and w = w and ctx = ctx and sink = sink])
  case version
  then show ?thesis by (auto simp add: setupFlow_version ret_defs)
next
  case nodeID
  then show ?thesis by (simp add: setupFlow_nodeID ret_defs)
next
  case (tz e)
  then show ?thesis by (simp add: setupFlow_tz ret_defs)
next
  case (wiring location e)
  then show ?thesis by (simp add: setupFlow_wiring ret_defs)
next
  case (ok location)
  then show ?thesis by (simp add: setupFlow_ok ret_defs)
qed

theorem setupFlow_returned_context_witness:
  "ret_ctx (setupFlow (example_ds\<lparr>NodeID_Get := 0\<rparr>) example_world example_ctx None
      (example_req 4 ''UTC'') None) = None
   \<and> ret_err (setupFlow (example_ds\<lparr>NodeID_Get := 0\<rparr>) example_world example_ctx None
      (example_req 4 ''UTC'') None) = Some NodeIDNotResolved
   \<and> ret_err (setupFlow (example_ds\<lparr>NodeID_Get := 0\<rparr>) example_world example_ctx None
      (example_req 5 ''UTC'') None) = Some (VersionMismatch 5 4 4)
   \<and> ret_ctx (setupFlow (example_ds\<lparr>NodeID_Get := 0\<rparr>) example_world example_ctx None
      (example_req 5 ''UTC'') None) = Some example_ctx
   \<and> ret_ctx (setupFlow example_ds example_world example_ctx None
      (example_req 4 ''Mars/Olympus'') None) \<noteq> None"
  using
    setupFlow_returned_context [of "example_ds\<lparr>NodeID_Get := 0\<rparr>" example_world example_ctx None
      "example_req 4 ''UTC''" None]
    setupFlow_returned_context [of "example_ds\<lparr>NodeID_Get := 0\<rparr>" example_world example_ctx None
      "example_req 5 ''UTC''" None]
    setupFlow_returned_context [of example_ds example_world example_ctx None
      "example_req 4 ''Mars/Olympus''" None]
  by (simp add: example_req_def example_ds_def MinAcceptedVersion_def Version_def)

text \<open>
  C1. At a request with an unknown time zone, and at one whose wiring fails, \<open>setupFlow\<close>
  starts span 0, monitor 1 and account 2, and on the way out finishes the span only:
  the monitor and the account are released by no event of the call, and no flow is
  returned through which they could be.
\<close>

theorem setupFlow_failure_keeps_monitor_open:
  "setupFlow example_ds example_world example_ctx None (example_req 4 ''Mars/Olympus'') None =
     (\<lparr>events = [StartSpan 0 None, MonitorStart 1, MakeBoundAccount 2 1, FinishSpan 0],
       next_handle = 3\<rparr>,
      Some \<lparr>ctx_span = Some 0, ctx_tags = [''rpc'']\<rparr>, None,
      Some (Other ''unknown time zone''))
   \<and> opened example_world
       (ret_world (setupFlow example_ds example_world example_ctx None
          (example_req 4 ''Mars/Olympus'') None)) = [0, 1, 2]
   \<and> released example_world
       (ret_world (setupFlow example_ds example_world example_ctx None
          (example_req 4 ''Mars/Olympus'') None)) = [0]
   \<and> opened example_world
       (ret_world (setupFlow (example_ds\<lparr>Flow_setup := \<lambda>c f spec. Some (Other ''bad processor'')\<rparr>)
          example_world example_ctx None (example_req 4 ''UTC'') None)) = [0, 1, 2]
   \<and> released example_world
       (ret_world (setupFlow (example_ds\<lparr>Flow_setup := \<lambda>c f spec. Some (Other ''bad processor'')\<rparr>)
          example_world example_ctx None (example_req 4 ''UTC'') None)) = [0]
   \<and> ret_flow (setupFlow (example_ds\<lparr>Flow_setup := \<lambda>c f spec. Some (Other ''bad processor'')\<rparr>)
          example_world example_ctx None (example_req 4 ''UTC'') None) = None"
  by (simp add: setupFlow_def Let_def effect_defs ret_defs log_defs example_defs
      ContextWithSpan_def MinAcceptedVersion_def Version_def newFlow_def)

subsection \<open>Claims about the entry points\<close>

text \<open>
  C3. \<open>SetupFlow\<close> never returns a transport-level error and always returns a
  response. An error of \<open>setupFlow\<close> is the response's \<open>Error\<close>, wrapped by \<open>NewError\<close>.
  When \<open>setupFlow\<close> succeeds, which it does only with a context and a flow, the response's
  \<open>Error\<close> is what \<open>ScheduleFlow\<close> answers for them: its error wrapped by \<open>NewError\<close>, or
  none when scheduling succeeds too.
\<close>

theorem SetupFlow_embeds_errors:
  "snd (snd (SetupFlow ds w ctx req)) = None
   \<and> (ret_err (setupFlow ds w (AnnotateCtx ds Background) (SpanFromContext ctx) req None)
         = Some e
       \<longrightarrow> fst (snd (SetupFlow ds w ctx req)) = Some \<lparr>resp_Error = Some (NewError e)\<rparr>)
   \<and> (setupFlow ds w (AnnotateCtx ds Background) (SpanFromContext ctx) req None
         = (w1, Some c, Some f, None)
       \<longrightarrow> fst (snd (SetupFlow ds w ctx req)) =
             Some \<lparr>resp_Error = map_option NewError (ScheduleFlow_err ds c f)\<rparr>)
   \<and> (ret_err (setupFlow ds w (AnnotateCtx ds Background) (SpanFromContext ctx) req None)
         = None
       \<longrightarrow> (\<exists>w1 c f. setupFlow ds w (AnnotateCtx ds Background) (SpanFromContext ctx) req None
                      = (w1, Some c, Some f, None)))"
proof -
  obtain w' c' f' err
    where r: "setupFlow ds w (AnnotateCtx ds Background) (SpanFromContext ctx) req None
                = (w', c', f', err)"
    by (cases "setupFlow ds w (AnnotateCtx ds Background) (SpanFromContext ctx) req None")
  show ?thesis
  proof (cases err)
    case (Some e0)
    with r show ?thesis by (simp add: SetupFlow_def Let_def ret_defs)
  next
    case None
    with r setupFlow_no_error [of ds w "AnnotateCtx ds Background" "SpanFromContext ctx" req None]
    obtain cx fl where "c' = Some cx" and "f' = Some fl" by (auto simp add: ret_defs)
    with r None show ?thesis
      by (cases "ScheduleFlow_err ds cx fl") (auto simp add: SetupFlow_def Let_def ret_defs)
  qed
qed

theorem SetupFlow_embeds_errors_witness:
  "snd (snd (SetupFlow example_ds example_world example_ctx (example_req 3 ''UTC''))) = None
   \<and> fst (snd (SetupFlow example_ds example_world example_ctx (example_req 3 ''UTC''))) =
       Some \<lparr>resp_Error = Some (NewError (VersionMismatch 3 4 4))\<rparr>
   \<and> fst (snd (SetupFlow (example_ds\<lparr>ScheduleFlow_err := \<lambda>c f. Some (Other ''queue full'')\<rparr>)
                 example_world example_ctx (example_req 4 ''UTC''))) =
       Some \<lparr>resp_Error = Some (NewError (Other ''queue full''))\<rparr>
   \<and> fst (snd (SetupFlow example_ds example_world example_ctx (example_req 4 ''UTC''))) =
       Some \<lparr>resp_Error = None\<rparr>"
proof -
  let ?busy = "example_ds\<lparr>ScheduleFlow_err := \<lambda>c f. Some (Other ''queue full'')\<rparr>"
  have a: "ret_err (setupFlow example_ds example_world (AnnotateCtx example_ds Background)
             (SpanFromContext example_ctx) (example_req 3 ''UTC'') None)
           = Some (VersionMismatch 3 4 4)"
    by (simp add: setupFlow_version ret_defs example_req_def MinAcceptedVersion_def Version_def)
  have b: "ret_err (setupFlow ?busy example_world (AnnotateCtx ?busy Background)
             (SpanFromContext example_ctx) (example_req 4 ''UTC'') None) = None"
    by (simp add: setupFlow_def Let_def effect_defs ret_defs example_defs
        MinAcceptedVersion_def Version_def)
  have c: "ret_err (setupFlow example_ds example_world (AnnotateCtx example_ds Background)
             (SpanFromContext example_ctx) (example_req 4 ''UTC'') None) = None"
    by (simp add: setupFlow_def Let_def effect_defs ret_defs example_defs
        MinAcceptedVersion_def Version_def)
  from b
    SetupFlow_embeds_errors [of ?busy example_world example_ctx "example_req 4 ''UTC''"]
  obtain w1 c1 f1
    where b': "setupFlow ?busy example_world (AnnotateCtx ?busy Background)
                 (SpanFromContext example_ctx) (example_req 4 ''UTC'') None
               = (w1, Some c1, Some f1, None)"
    by blast
  from c
    SetupFlow_embeds_errors [of example_ds example_world example_ctx "example_req 4 ''UTC''"]
  obtain w2 c2 f2
    where c': "setupFlow example_ds example_world (AnnotateCtx example_ds Background)
                 (SpanFromContext example_ctx) (example_req 4 ''UTC'') None
               = (w2, Some c2, Some f2, None)"
    by blast
  have d: "ScheduleFlow_err example_ds c2 f2 = None"
    by (simp add: example_ds_def)
  from
    SetupFlow_embeds_errors [of example_ds example_world example_ctx "example_req 3 ''UTC''"
      "VersionMismatch 3 4 4"]
    SetupFlow_embeds_errors [of ?busy example_world example_ctx "example_req 4 ''UTC''"
      _ w1 c1 f1]
    SetupFlow_embeds_errors [of example_ds example_world example_ctx "example_req 4 ''UTC''"
      _ w2 c2 f2]
    a b' c' d
  show ?thesis by simp
qed

text \<open>
  C5. When the first message of the stream carries no \<open>SetupFlowRequest\<close>,
  \<open>RunSyncFlow\<close> returns the protocol error having only created the mailbox: the call
  opens no span, monitor or account and no flow is constructed, wired, started or
  cleaned up.
\<close>

theorem RunSyncFlow_without_setup_request:
  assumes "fst (Recv stream) = Inr firstMsg"
    and "sig_SetupFlowRequest firstMsg = None"
  shows "RunSyncFlow ds w stream = (emit NewOutbox w, Some NoSetupFlowRequest)
         \<and> new_events w (fst (RunSyncFlow ds w stream)) = [NewOutbox]
         \<and> opened w (fst (RunSyncFlow ds w stream)) = []
         \<and> filter flow_event (new_events w (fst (RunSyncFlow ds w stream))) = []"
  using assms by (simp add: RunSyncFlow_def Let_def log_defs emit_def flow_event_def)

theorem RunSyncFlow_without_setup_request_witness:
  "fst (Recv (example_stream [\<lparr>sig_SetupFlowRequest = None\<rparr>])) = Inr \<lparr>sig_SetupFlowRequest = None\<rparr>
   \<and> sig_SetupFlowRequest \<lparr>sig_SetupFlowRequest = None\<rparr> = None
   \<and> RunSyncFlow example_ds example_world (example_stream [\<lparr>sig_SetupFlowRequest = None\<rparr>]) =
       (\<lparr>events = [NewOutbox], next_handle = 0\<rparr>, Some NoSetupFlowRequest)"
proof -
  have h1: "fst (Recv (example_stream [\<lparr>sig_SetupFlowRequest = None\<rparr>]))
              = Inr \<lparr>sig_SetupFlowRequest = None\<rparr>"
    by (simp add: Recv_def example_stream_def)
  have h2: "sig_SetupFlowRequest \<lparr>sig_SetupFlowRequest = None\<rparr> = None"
    by simp
  from RunSyncFlow_without_setup_request [OF h1 h2, of example_ds example_world] h1 h2
  show ?thesis by (simp add: emit_def example_world_def)
qed

text \<open>
  C6. When the first message carries a request, \<open>SetupSyncFlow\<close> succeeds and the
  stopper accepts the task, \<open>RunSyncFlow\<close> returns the \<open>err\<close> field that the mailbox holds
  after the task has run, whatever it is; the flow's \<open>Start\<close>, \<open>Wait\<close> and \<open>Cleanup\<close>
  hand no error back.
\<close>

theorem RunSyncFlow_returns_mailbox_error:
  assumes "fst (Recv stream) = Inr firstMsg"
    and "sig_SetupFlowRequest firstMsg = Some req"
    and "ret_err (SetupSyncFlow ds (emit NewOutbox w) (stream_Context stream) req
           SyncFlowStreamOutbox) = None"
    and "RunTask_err ds = None"
  shows "\<exists>fl. ret_flow (SetupSyncFlow ds (emit NewOutbox w) (stream_Context stream) req
                  SyncFlowStreamOutbox) = Some fl
              \<and> snd (RunSyncFlow ds w stream) =
                  mbox_err (mbox_run ds fl
                    (setFlowCtx (flow_FlowCtx fl) newOutboxSyncFlowStream))"
proof -
  obtain w1 c f err
    where r: "SetupSyncFlow ds (emit NewOutbox w) (stream_Context stream) req
                SyncFlowStreamOutbox = (w1, c, f, err)"
    by (cases "SetupSyncFlow ds (emit NewOutbox w) (stream_Context stream) req
                 SyncFlowStreamOutbox")
  with assms(3) have err: "err = None"
    by (simp add: ret_defs)
  from r assms(3)
    setupFlow_no_error [of ds "emit NewOutbox w" "AnnotateCtx ds (stream_Context stream)"
      "SpanFromContext (stream_Context stream)" req "Some SyncFlowStreamOutbox"]
  obtain cx fl where "c = Some cx" and "f = Some fl"
    by (auto simp add: SetupSyncFlow_def ret_defs)
  with r err assms(1,2,4) show ?thesis
    by (simp add: RunSyncFlow_def Let_def run_sync_task_def ret_defs)
qed

theorem RunSyncFlow_returns_mailbox_error_witness:
  "snd (RunSyncFlow (example_ds\<lparr>mbox_run := \<lambda>f m. m\<lparr>mbox_err := Some (Other ''send failed'')\<rparr>\<rparr>)
          example_world
          (example_stream [\<lparr>sig_SetupFlowRequest = Some (example_req 4 ''UTC'')\<rparr>]))
     = Some (Other ''send failed'')
   \<and> snd (RunSyncFlow example_ds example_world
          (example_stream [\<lparr>sig_SetupFlowRequest = Some (example_req 4 ''UTC'')\<rparr>])) = None"
proof -
  let ?ds = "example_ds\<lparr>mbox_run := \<lambda>f m. m\<lparr>mbox_err := Some (Other ''send failed'')\<rparr>\<rparr>"
  let ?msg = "\<lparr>sig_SetupFlowRequest = Some (example_req 4 ''UTC'')\<rparr>"
  have h1: "fst (Recv (example_stream [?msg])) = Inr ?msg"
    by (simp add: Recv_def example_stream_def)
  have h2: "sig_SetupFlowRequest ?msg = Some (example_req 4 ''UTC'')"
    by simp
  have h3: "ret_err (SetupSyncFlow ?ds (emit NewOutbox example_world)
              (stream_Context (example_stream [?msg])) (example_req 4 ''UTC'')
              SyncFlowStreamOutbox) = None"
    by (simp add: SetupSyncFlow_def setupFlow_def Let_def effect_defs ret_defs example_defs
        MinAcceptedVersion_def Version_def)
  have h3': "ret_err (SetupSyncFlow example_ds (emit NewOutbox example_world)
              (stream_Context (example_stream [?msg])) (example_req 4 ''UTC'')
              SyncFlowStreamOutbox) = None"
    by (simp add: SetupSyncFlow_def setupFlow_def Let_def effect_defs ret_defs example_defs
        MinAcceptedVersion_def Version_def)
  have h4: "RunTask_err ?ds = None" and h4': "RunTask_err example_ds = None"
    by (simp_all add: example_ds_def)
  have m: "mbox_run example_ds = (\<lambda>f m. m)"
    by (simp add: example_ds_def)
  from RunSyncFlow_returns_mailbox_error [OF h1 h2 h3 h4]
    RunSyncFlow_returns_mailbox_error [OF h1 h2 h3' h4']
  show ?thesis
    by (auto simp add: m setFlowCtx_def newOutboxSyncFlowStream_def)
qed

text \<open>
  C7. \<open>flowStreamInt\<close> fails with \<open>missing header message\<close> when the first \<open>Recv\<close> reports
  \<open>io.EOF\<close>, and with \<open>no header in first message\<close> when the first message has no
  header, in both cases without any event. It calls \<open>ConnectInboundStream\<close> once, with the
  flow and stream of the header, when the first message has a header, and not at all
  otherwise.
\<close>

theorem flowStreamInt_first_message:
  "(fst (Recv stream) = Inl EOF
      \<longrightarrow> flowStreamInt ds w ctx stream = (w, Some MissingHeaderMessage))
   \<and> (fst (Recv stream) = Inr msg \<and> msg_Header msg = None
      \<longrightarrow> flowStreamInt ds w ctx stream = (w, Some NoHeaderInFirstMessage))
   \<and> connect_attempts (new_events w (fst (flowStreamInt ds w ctx stream))) =
       (case fst (Recv stream) of
          Inl err \<Rightarrow> []
        | Inr m \<Rightarrow> (case msg_Header m of
                     None \<Rightarrow> []
                   | Some h \<Rightarrow> [(hdr_FlowID h, hdr_StreamID h)]))"
  by (simp add: flowStreamInt_def Let_def connect_attempts_def new_events_def emit_def
      split: sum.split option.split prod.split)

theorem flowStreamInt_first_message_witness:
  "flowStreamInt example_ds example_world example_ctx (example_stream []) =
     (example_world, Some MissingHeaderMessage)
   \<and> flowStreamInt example_ds example_world example_ctx
       (example_stream [\<lparr>msg_Header = None, msg_Data = [''row'']\<rparr>]) =
     (example_world, Some NoHeaderInFirstMessage)
   \<and> connect_attempts (new_events example_world (fst (flowStreamInt example_ds example_world
       example_ctx
       (example_stream [\<lparr>msg_Header = Some \<lparr>hdr_FlowID = ''f1'', hdr_StreamID = 7\<rparr>,
                         msg_Data = []\<rparr>])))) = [(''f1'', 7)]"
proof -
  let ?nohdr = "\<lparr>msg_Header = None, msg_Data = [''row'']\<rparr>"
  let ?hdr = "\<lparr>msg_Header = Some \<lparr>hdr_FlowID = ''f1'', hdr_StreamID = 7\<rparr>, msg_Data = []\<rparr>"
  have h1: "fst (Recv (example_stream [] :: ProducerMessage stream)) = Inl EOF"
    by (simp add: Recv_def example_stream_def)
  have h2: "fst (Recv (example_stream [?nohdr])) = Inr ?nohdr \<and> msg_Header ?nohdr = None"
    by (simp add: Recv_def example_stream_def)
  have h3: "fst (Recv (example_stream [?hdr])) = Inr ?hdr"
    by (simp add: Recv_def example_stream_def)
  from
    flowStreamInt_first_message [of "example_stream []" example_ds example_world example_ctx]
    flowStreamInt_first_message [of "example_stream [?nohdr]" example_ds example_world
      example_ctx ?nohdr]
    flowStreamInt_first_message [of "example_stream [?hdr]" example_ds example_world example_ctx]
    h1 h2 h3
  show ?thesis by simp
qed

subsection \<open>Claims about the generator of temp-storage IDs\<close>

lemma NewIDs_no_wrap:
  "unat (nextID t) + n < 2 ^ 64 \<Longrightarrow>
     map unat (fst (NewIDs n t)) = [Suc (unat (nextID t)) ..< Suc (unat (nextID t) + n)]
     \<and> nextID (snd (NewIDs n t)) = nextID t + of_nat n"
proof (induction n arbitrary: t)
  case 0
  then show ?case by simp
next
  case (Suc n)
  let ?t' = "t\<lparr>nextID := nextID t + 1\<rparr>"
  from Suc.prems have "unat (nextID t) + unat (1 :: 64 word) < 2 ^ LENGTH(64)"
    by simp
  then have step: "unat (nextID t + 1) = Suc (unat (nextID t))"
    by (simp add: unat_add_lem [THEN iffD1])
  with Suc.prems have "unat (nextID ?t') + n < 2 ^ 64"
    by simp
  from Suc.IH [OF this] step show ?case
    by (simp add: NewID_def split_beta upt_conv_Cons)
qed

text \<open>
  C9, as amended. As long as the 64-bit counter does not wrap, that is, the value before
  the calls plus their number \<open>n\<close> stays below \<open>2^64\<close>, the \<open>n\<close> calls return exactly the
  \<open>n\<close> consecutive values that follow the value before the calls: strictly increasing,
  pairwise distinct, and the counter ends \<open>n\<close> higher.
\<close>

theorem NewIDs_consecutive_without_wrap:
  assumes "unat (nextID t) + n < 2 ^ 64"
  shows "map unat (fst (NewIDs n t)) = [Suc (unat (nextID t)) ..< Suc (unat (nextID t) + n)]
         \<and> sorted_wrt (<) (fst (NewIDs n t))
         \<and> distinct (fst (NewIDs n t))
         \<and> nextID (snd (NewIDs n t)) = nextID t + of_nat n"
proof -
  from NewIDs_no_wrap [OF assms]
  have vals: "map unat (fst (NewIDs n t)) = [Suc (unat (nextID t)) ..< Suc (unat (nextID t) + n)]"
    and last: "nextID (snd (NewIDs n t)) = nextID t + of_nat n"
    by simp_all
  have "sorted_wrt (<) (map unat (fst (NewIDs n t)))"
    unfolding vals by (rule sorted_wrt_upt)
  then have "sorted_wrt (\<lambda>x y. unat x < unat y) (fst (NewIDs n t))"
    by (simp add: sorted_wrt_map)
  then have incr: "sorted_wrt (<) (fst (NewIDs n t))"
    by (rule sorted_wrt_mono_rel [rotated]) (simp add: word_less_nat_alt)
  have "distinct (map unat (fst (NewIDs n t)))"
    unfolding vals by (rule distinct_upt)
  then have "distinct (fst (NewIDs n t))"
    by (simp add: distinct_map)
  with vals incr last show ?thesis by simp
qed

theorem NewIDs_consecutive_without_wrap_witness:
  "unat (nextID \<lparr>nextID = 5\<rparr>) + 3 < 2 ^ 64
   \<and> map unat (fst (NewIDs 3 \<lparr>nextID = 5\<rparr>)) = [6, 7, 8]
   \<and> sorted_wrt (<) (fst (NewIDs 3 \<lparr>nextID = 5\<rparr>))
   \<and> distinct (fst (NewIDs 3 \<lparr>nextID = 5\<rparr>))
   \<and> nextID (snd (NewIDs 3 \<lparr>nextID = 5\<rparr>)) = 8"
proof -
  have h: "unat (nextID \<lparr>nextID = 5\<rparr>) + 3 < 2 ^ 64"
    by simp
  have u: "[6 ..< 9] = [6, 7, 8 :: nat]"
    by (simp add: upt_conv_Cons)
  from NewIDs_consecutive_without_wrap [OF h] h u show ?thesis
    by simp
qed

text \<open>
  C9, as stated, fails where the counter wraps: from \<open>2^64 - 2\<close>, two calls return
  \<open>2^64 - 1\<close> and then \<open>0\<close>, which is neither larger than the value before it nor the
  next value of a contiguous range.
\<close>

theorem NewID_wraps_counterexample:
  "fst (NewIDs (Suc (Suc 0)) \<lparr>nextID = 18446744073709551614\<rparr>) = [18446744073709551615, 0]
   \<and> \<not> sorted_wrt (<) (fst (NewIDs (Suc (Suc 0)) \<lparr>nextID = 18446744073709551614\<rparr>))"
  by (simp add: NewID_def)

end
